theory Spec2Isabelle
  imports Main
begin

section \<open>Keyword highlighting\<close>

text \<open>
  The client script \<^verbatim>\<open>frontend/static/js/main.js\<close> keeps all of its state in variables
  of one closure and reacts to browser events. This theory embeds the handlers as functions
  on an explicit state record. The first part is the text transformation
  \<^verbatim>\<open>highlightKeywordsInText\<close>, which only reads the keyword cache.
\<close>

subsection \<open>Keywords as delivered by the backend\<close>

text \<open>
  A cached keyword is the JSON object returned by \<^verbatim>\<open>/api/keywords/\<close>. The field
  \<^verbatim>\<open>id\<close> is called \<open>kw_id\<close> here, since \<open>id\<close> is the identity function of HOL.
\<close>

record keyword =
  kw_id :: int
  word :: string
  talking_point :: string
  is_active :: bool

subsection \<open>The regular expression built from a keyword\<close>

text \<open>
  \<^verbatim>\<open>new RegExp(`(${kw.word})`, 'gi')\<close> reads the word as a pattern. The embedding covers
  the words every character of which stands for itself in a pattern: ASCII characters
  other than the syntax characters \<^verbatim>\<open>\ ^ $ . | ? * + ( ) [ ] { }\<close>. For any other word
  the functions below answer \<open>None\<close>: the outcome (a different match set, or a
  \<^verbatim>\<open>SyntaxError\<close>) is outside the model.
\<close>

definition regex_syntax_chars :: "char list" where
  "regex_syntax_chars = CHR 0x5C # ''^$.|?*+()[]{}''"

definition literal_char :: "char \<Rightarrow> bool" where
  "literal_char c = ((of_char c :: nat) < 128 \<and> c \<notin> set regex_syntax_chars)"

definition literal_word :: "string \<Rightarrow> bool" where
  "literal_word w = list_all literal_char w"

text \<open>
  Flag \<^verbatim>\<open>i\<close>: two characters match when their canonical forms agree. Without flag
  \<^verbatim>\<open>u\<close> the canonical form is the upper-case character, and a character outside ASCII
  is never mapped into ASCII, so against an ASCII pattern only the letters \<^verbatim>\<open>a-z\<close>
  fold.
\<close>

definition canonicalize :: "char \<Rightarrow> char" where
  "canonicalize c =
     (let n = (of_char c :: nat) in if 97 \<le> n \<and> n \<le> 122 then char_of (n - 32) else c)"

text \<open>\<open>match_at p t\<close>: the pattern \<open>p\<close> matches at the start of \<open>t\<close>.\<close>

fun match_at :: "string \<Rightarrow> string \<Rightarrow> bool" where
  "match_at [] t = True"
| "match_at (p # ps) [] = False"
| "match_at (p # ps) (c # cs) = (canonicalize p = canonicalize c \<and> match_at ps cs)"

text \<open>
  The replacement template \<^verbatim>\<open><span class="highlight">$1</span>\<close>, where \<^verbatim>\<open>$1\<close> is the
  matched text (group 1 is the whole pattern).
\<close>

definition marker_open :: string where
  \<open>marker_open = ''<span class="highlight">''\<close>

definition marker_close :: string where
  "marker_close = ''</span>''"

definition wrap :: "string \<Rightarrow> string" where
  "wrap m = marker_open @ m @ marker_close"

text \<open>
  \<^verbatim>\<open>String.prototype.replace\<close> with a global pattern: scan from the left, replace the
  leftmost match, continue behind it. A match of the empty pattern is followed by a step
  of one character, and the empty pattern also matches at the end of the text.
\<close>

function replace_global :: "string \<Rightarrow> string \<Rightarrow> string" where
  "replace_global p [] = (if p = [] then wrap [] else [])"
| "replace_global p (c # cs) =
     (if p = [] then wrap [] @ c # replace_global p cs
      else if match_at p (c # cs)
        then wrap (take (length p) (c # cs)) @ replace_global p (drop (length p) (c # cs))
      else c # replace_global p cs)"
  by pat_completeness auto
termination
  by (relation "measure (\<lambda>(p, t). length t)") auto

subsection \<open>The loop over the cache\<close>

text \<open>
  \<^verbatim>\<open>keywords.forEach(kw => { highlightedText = highlightedText.replace(regex, ...) })\<close>:
  one global replacement per cached keyword, in cache order, each on the output of the
  one before.
\<close>

fun highlight_forEach :: "keyword list \<Rightarrow> string \<Rightarrow> string option" where
  "highlight_forEach [] highlightedText = Some highlightedText"
| "highlight_forEach (kw # kws) highlightedText =
     (if literal_word (word kw)
      then highlight_forEach kws (replace_global (word kw) highlightedText)
      else None)"

text \<open>Occurrence of a pattern somewhere in a text, under the same matching.\<close>

fun occurs_in :: "string \<Rightarrow> string \<Rightarrow> bool" where
  "occurs_in p [] = (p = [])"
| "occurs_in p (c # cs) = (match_at p (c # cs) \<or> occurs_in p cs)"

text \<open>Number of positions of a text at which a pattern matches.\<close>

fun count_matches :: "string \<Rightarrow> string \<Rightarrow> nat" where
  "count_matches p [] = (if p = [] then 1 else 0)"
| "count_matches p (c # cs) = (if match_at p (c # cs) then 1 else 0) + count_matches p cs"

section \<open>The session: sockets, recorder, timers\<close>

subsection \<open>Objects of the browser\<close>

text \<open>
  The script holds references to browser objects (\<^verbatim>\<open>WebSocket\<close>, \<^verbatim>\<open>MediaRecorder\<close>);
  every handler reads the variables \<^verbatim>\<open>ws\<close> and \<^verbatim>\<open>mediaRecorder\<close> when it runs, not when
  it was installed. So the objects live in two stores (lists, an object's address is its
  index) and the two variables hold addresses. Objects are never removed from a store.
\<close>

datatype readyState = CONNECTING | OPEN | CLOSING | CLOSED

type_synonym blob = "nat list"

text \<open>
  What the script hands to \<^verbatim>\<open>ws.send\<close>: the JSON text
  \<^verbatim>\<open>{type: 'set_speaker_type', speaker_type: v}\<close>, written \<open>Control v\<close>, or the
  \<^verbatim>\<open>Blob\<close> of a capture chunk, written \<open>Binary b\<close> (\<open>length b\<close> is its \<^verbatim>\<open>size\<close>).
\<close>

datatype frame = Control string | Binary blob

record socket =
  url :: string
  readyState :: readyState
  sent :: "frame list"

datatype recorder_state = inactive | recording | paused

record recorder =
  rec_state :: recorder_state
  mimeType :: "string option"
  timeslice :: nat
  tracks_stopped :: bool

datatype callback = ConnectWebSocket

record timer =
  callback :: callback
  delay :: nat

datatype level = Log | Warn | Error

record state =
  location_protocol :: string
  location_host :: string
  speakerTypeSelect_value :: string
  startRecordingBtn_disabled :: bool
  stopRecordingBtn_disabled :: bool
  newKeywordInput_value :: string
  newTalkingPointInput_value :: string
  recorders :: "recorder list"
  mediaRecorder :: "nat option"
  audioChunks :: "blob list"
  sockets :: "socket list"
  ws :: "nat option"
  sessionId :: string
  "keywords" :: "keyword list"
  timers :: "timer list"
  awaiting_getUserMedia :: nat
  console :: "(level \<times> string) list"

text \<open>\<^verbatim>\<open>highlightKeywordsInText(text)\<close> reads the cache of the state it runs in.\<close>

definition highlightKeywordsInText :: "state \<Rightarrow> string \<Rightarrow> string option" where
  "highlightKeywordsInText s text = highlight_forEach (keywords s) text"

subsection \<open>Primitives\<close>

text \<open>\<^verbatim>\<open>console.log\<close>, \<^verbatim>\<open>console.warn\<close>, \<^verbatim>\<open>console.error\<close>: the first argument is kept.\<close>

definition console_out :: "level \<Rightarrow> string \<Rightarrow> state \<Rightarrow> state" where
  "console_out l m s = s\<lparr>console := console s @ [(l, m)]\<rparr>"

text \<open>
  \<^verbatim>\<open>socket.send(f)\<close>: an open socket transmits; a connecting socket throws
  \<^verbatim>\<open>InvalidStateError\<close> (no handler of the script catches it, the browser reports it on
  the console); a closing or closed socket discards the data silently.
\<close>

definition socket_send :: "nat \<Rightarrow> frame \<Rightarrow> state \<Rightarrow> state" where
  "socket_send i f s =
     (if i < length (sockets s) then
        (case readyState (sockets s ! i) of
           OPEN \<Rightarrow> s\<lparr>sockets := (sockets s)[i := (sockets s ! i)\<lparr>sent := sent (sockets s ! i) @ [f]\<rparr>]\<rparr>
         | CONNECTING \<Rightarrow> console_out Error ''Uncaught InvalidStateError'' s
         | CLOSING \<Rightarrow> s
         | CLOSED \<Rightarrow> s)
      else s)"

text \<open>
  \<^verbatim>\<open>socket.close()\<close>: a connecting or open socket starts closing; otherwise nothing
  happens. The \<^verbatim>\<open>close\<close> event arrives later, from the browser.
\<close>

definition socket_close :: "nat \<Rightarrow> state \<Rightarrow> state" where
  "socket_close i s =
     (if i < length (sockets s) then
        (case readyState (sockets s ! i) of
           CONNECTING \<Rightarrow> s\<lparr>sockets := (sockets s)[i := (sockets s ! i)\<lparr>readyState := CLOSING\<rparr>]\<rparr>
         | OPEN \<Rightarrow> s\<lparr>sockets := (sockets s)[i := (sockets s ! i)\<lparr>readyState := CLOSING\<rparr>]\<rparr>
         | CLOSING \<Rightarrow> s
         | CLOSED \<Rightarrow> s)
      else s)"

text \<open>
  \<^verbatim>\<open>ws && ws.readyState === WebSocket.OPEN\<close>: the address of the socket in \<^verbatim>\<open>ws\<close> when
  the test succeeds.
\<close>

definition open_ws :: "state \<Rightarrow> nat option" where
  "open_ws s =
     (case ws s of
        None \<Rightarrow> None
      | Some i \<Rightarrow> if i < length (sockets s) \<and> readyState (sockets s ! i) = OPEN then Some i else None)"

definition setTimeout :: "callback \<Rightarrow> nat \<Rightarrow> state \<Rightarrow> state" where
  "setTimeout cb ms s = s\<lparr>timers := timers s @ [\<lparr>callback = cb, delay = ms\<rparr>]\<rparr>"

subsection \<open>\<^verbatim>\<open>connectWebSocket\<close> and the socket handlers\<close>

definition wsUrl :: "state \<Rightarrow> string" where
  "wsUrl s =
     (if location_protocol s = ''https:'' then ''wss:'' else ''ws:'') @ ''//'' @
     location_host s @ ''/ws/audio/'' @ sessionId s @ ''/''"

definition connectWebSocket :: "state \<Rightarrow> state" where
  "connectWebSocket s =
     (let s1 = console_out Log ''Attempting to connect WebSocket to:'' s
      in s1\<lparr>sockets := sockets s1 @ [\<lparr>url = wsUrl s1, readyState = CONNECTING, sent = []\<rparr>],
             ws := Some (length (sockets s1))\<rparr>)"

text \<open>
  \<^verbatim>\<open>ws.onopen\<close>. The \<^verbatim>\<open>ws\<close> in its body is the variable: the announcement goes to the
  socket the variable holds when the handler runs.
\<close>

definition ws_onopen :: "state \<Rightarrow> state" where
  "ws_onopen s =
     (let s1 = console_out Log ''WebSocket connected successfully'' s
      in case ws s1 of
           None \<Rightarrow> console_out Error ''Uncaught TypeError'' s1
         | Some i \<Rightarrow> socket_send i (Control (speakerTypeSelect_value s1)) s1)"

text \<open>\<^verbatim>\<open>ws.onclose\<close>, with \<^verbatim>\<open>event.wasClean\<close>.\<close>

definition ws_onclose :: "bool \<Rightarrow> state \<Rightarrow> state" where
  "ws_onclose wasClean s =
     (let s1 = console_out Log ''WebSocket disconnected'' s
      in if \<not> wasClean
         then setTimeout ConnectWebSocket 3000
                (console_out Log ''Attempting to reconnect WebSocket...'' s1)
         else s1)"

text \<open>\<^verbatim>\<open>ws.onerror\<close>\<close>

definition ws_onerror :: "state \<Rightarrow> state" where
  "ws_onerror s =
     (let s1 = console_out Error ''WebSocket error:'' s
      in case ws s1 of
           None \<Rightarrow> console_out Error ''Uncaught TypeError'' s1
         | Some i \<Rightarrow> socket_close i s1)"

text \<open>A timer that fires runs its callback.\<close>

fun run_callback :: "callback \<Rightarrow> state \<Rightarrow> state" where
  "run_callback ConnectWebSocket s = connectWebSocket s"

subsection \<open>Start and stop\<close>

text \<open>
  The click handler of \<^verbatim>\<open>startRecordingBtn\<close> is an \<^verbatim>\<open>async\<close> function: it runs up to
  \<^verbatim>\<open>await navigator.mediaDevices.getUserMedia(...)\<close>, returns to the event loop, and is
  resumed when the promise settles. \<open>startRecording_click\<close> is the part before the
  \<^verbatim>\<open>await\<close>; \<open>new_id\<close> is the value \<^verbatim>\<open>generateSessionId()\<close> draws. The event loop's
  count of suspended handlers, \<open>awaiting_getUserMedia\<close>, is kept by \<open>step\<close> below.
\<close>

definition startRecording_click :: "string \<Rightarrow> state \<Rightarrow> state" where
  "startRecording_click new_id s =
     console_out Log ''Requesting microphone access...''
       (connectWebSocket (s\<lparr>sessionId := new_id\<rparr>))"

text \<open>
  The resumption when the stream is granted. \<open>supported\<close> is the answer of
  \<^verbatim>\<open>MediaRecorder.isTypeSupported('audio/webm;codecs=opus')\<close>. Constructing and starting
  a recorder on a granted stream is taken to succeed.
\<close>

definition startRecording_granted :: "bool \<Rightarrow> state \<Rightarrow> state" where
  "startRecording_granted supported s =
     (let s1 = console_out Log ''Microphone access granted. Stream:'' s;
          s2 = (if \<not> supported
                then console_out Warn ''audio/webm;codecs=opus is not supported, trying default.'' s1
                else s1);
          r = \<lparr>rec_state = inactive,
               mimeType = (if \<not> supported then None else Some ''audio/webm;codecs=opus''),
               timeslice = 0, tracks_stopped = False\<rparr>;
          s3 = s2\<lparr>recorders := recorders s2 @ [r], mediaRecorder := Some (length (recorders s2))\<rparr>;
          s4 = console_out Log ''MediaRecorder created. State:'' s3;
          s5 = s4\<lparr>recorders := (recorders s4)[length (recorders s2) :=
                      r\<lparr>rec_state := recording, timeslice := 1000\<rparr>]\<rparr>;
          s6 = console_out Log ''MediaRecorder started. Current state:'' s5;
          s7 = s6\<lparr>startRecordingBtn_disabled := True, stopRecordingBtn_disabled := False\<rparr>
      in console_out Log ''Recording started...'' s7)"

text \<open>
  The \<^verbatim>\<open>catch\<close> block: the promise was rejected (permission denied, no device), or
  \<^verbatim>\<open>navigator.mediaDevices\<close> does not exist and the call threw at once.
\<close>

definition startRecording_rejected :: "state \<Rightarrow> state" where
  "startRecording_rejected s =
     (let s1 = console_out Error ''Error accessing microphone:'' s;
          s2 = console_out Error
                 ''Microphone Access Error: Could not start recording. Please ensure microphone access is granted.'' s1
      in s2\<lparr>startRecordingBtn_disabled := False, stopRecordingBtn_disabled := True\<rparr>)"

text \<open>\<^verbatim>\<open>mediaRecorder && mediaRecorder.state === 'recording'\<close>\<close>

definition mediaRecorder_recording :: "state \<Rightarrow> bool" where
  "mediaRecorder_recording s =
     (case mediaRecorder s of
        None \<Rightarrow> False
      | Some r \<Rightarrow> r < length (recorders s) \<and> rec_state (recorders s ! r) = recording)"

definition mediaRecorder_stop :: "state \<Rightarrow> state" where
  "mediaRecorder_stop s =
     (case mediaRecorder s of
        None \<Rightarrow> s
      | Some r \<Rightarrow> s\<lparr>recorders := (recorders s)[r := (recorders s ! r)\<lparr>rec_state := inactive\<rparr>]\<rparr>)"

definition stopRecording_click :: "state \<Rightarrow> state" where
  "stopRecording_click s =
     (if mediaRecorder_recording s then
        (let s1 = console_out Log ''Stopping MediaRecorder...'' s;
             s2 = mediaRecorder_stop s1;
             s3 = (case ws s2 of
                     None \<Rightarrow> s2
                   | Some i \<Rightarrow> socket_close i (console_out Log ''Closing WebSocket...'' s2));
             s4 = s3\<lparr>startRecordingBtn_disabled := False, stopRecordingBtn_disabled := True\<rparr>
         in console_out Log ''Recording stopped.'' s4)
      else console_out Log ''MediaRecorder not in recording state, cannot stop.'' s)"

subsection \<open>The recorder's handlers\<close>

text \<open>\<^verbatim>\<open>mediaRecorder.ondataavailable\<close>, with \<^verbatim>\<open>event.data\<close>.\<close>

definition mediaRecorder_ondataavailable :: "blob \<Rightarrow> state \<Rightarrow> state" where
  "mediaRecorder_ondataavailable data s =
     (let s1 = console_out Log ''ondataavailable event fired. Data size:'' s
      in if length data > 0 then
           (let s2 = s1\<lparr>audioChunks := audioChunks s1 @ [data]\<rparr>
            in case open_ws s2 of
                 Some i \<Rightarrow> console_out Log ''Sent audio chunk to WebSocket. Chunk size:''
                             (socket_send i (Binary data) s2)
               | None \<Rightarrow> console_out Warn ''WebSocket not open, could not send audio chunk.'' s2)
         else console_out Log ''ondataavailable event fired, but data size is 0.'' s1)"

text \<open>
  \<^verbatim>\<open>mediaRecorder.onstop\<close> of the recorder at address \<open>r\<close>; \<^verbatim>\<open>stream\<close> is the stream
  that recorder was built on.
\<close>

definition mediaRecorder_onstop :: "nat \<Rightarrow> state \<Rightarrow> state" where
  "mediaRecorder_onstop r s =
     (let s1 = console_out Log ''Recording stopped'' s;
          s2 = s1\<lparr>audioChunks := []\<rparr>
      in s2\<lparr>recorders := (recorders s2)[r := (recorders s2 ! r)\<lparr>tracks_stopped := True\<rparr>]\<rparr>)"

text \<open>\<^verbatim>\<open>mediaRecorder.onerror\<close>, with \<^verbatim>\<open>event.error.name\<close> and \<^verbatim>\<open>event.error.message\<close>.\<close>

definition mediaRecorder_onerror :: "string \<Rightarrow> string \<Rightarrow> state \<Rightarrow> state" where
  "mediaRecorder_onerror name message s =
     console_out Error (''Recording Error: MediaRecorder error: '' @ name @ '' - '' @ message)
       (console_out Error ''MediaRecorder error:'' s)"

subsection \<open>Speaker type\<close>

text \<open>
  The \<^verbatim>\<open>change\<close> handler of \<^verbatim>\<open>speakerTypeSelect\<close>. The browser has stored the chosen
  value in the element before it calls the handler.
\<close>

definition speakerType_change :: "state \<Rightarrow> state" where
  "speakerType_change s =
     (case open_ws s of
        Some i \<Rightarrow> console_out Log ''Sent speaker type update:''
                    (socket_send i (Control (speakerTypeSelect_value s)) s)
      | None \<Rightarrow> s)"

definition setSpeakerType :: "string \<Rightarrow> state \<Rightarrow> state" where
  "setSpeakerType v s = speakerType_change (s\<lparr>speakerTypeSelect_value := v\<rparr>)"

subsection \<open>Keyword management\<close>

text \<open>
  What a \<^verbatim>\<open>fetch\<close> gives back: a rejected promise (\<open>NetworkError\<close>) or a response with its
  \<^verbatim>\<open>ok\<close> flag and the value of \<^verbatim>\<open>response.json()\<close>, \<open>None\<close> when the body is not JSON
  (then \<^verbatim>\<open>await response.json()\<close> throws and the \<^verbatim>\<open>catch\<close> block runs).
\<close>

datatype 'a response = NetworkError | Response bool "'a option"

text \<open>
  \<^verbatim>\<open>String.prototype.trim\<close> strips white space and line terminators. Among the code
  units a \<open>char\<close> can hold (below 256) these are tab, line feed, vertical tab, form feed,
  carriage return, space and the no-break space U+00A0.
\<close>

definition white_space :: "char \<Rightarrow> bool" where
  "white_space c = ((of_char c :: nat) \<in> {9, 10, 11, 12, 13, 32, 160})"

definition trim :: "string \<Rightarrow> string" where
  "trim t = rev (dropWhile white_space (rev (dropWhile white_space t)))"

text \<open>
  The click handler of \<^verbatim>\<open>addKeywordBtn\<close> before its \<^verbatim>\<open>await\<close>: it changes nothing and
  sends a request only \<^verbatim>\<open>if (word)\<close>. The result is the body of the request.
\<close>

definition addKeyword_click :: "state \<Rightarrow> (string \<times> string \<times> bool) option" where
  "addKeyword_click s =
     (let word = trim (newKeywordInput_value s);
          talkingPoint = trim (newTalkingPointInput_value s)
      in if word \<noteq> [] then Some (word, talkingPoint, True) else None)"

definition addKeyword_response :: "keyword response \<Rightarrow> state \<Rightarrow> state" where
  "addKeyword_response resp s =
     (case resp of
        NetworkError \<Rightarrow> console_out Error ''Network error adding keyword:'' s
      | Response ok body \<Rightarrow>
          (case body of
             None \<Rightarrow> console_out Error ''Network error adding keyword:'' s
           | Some newKw \<Rightarrow>
               if ok then
                 console_out Log ''Keyword added:''
                   (s\<lparr>keywords := keywords s @ [newKw],
                      newKeywordInput_value := [], newTalkingPointInput_value := []\<rparr>)
               else console_out Error ''Failed to add keyword:'' s))"

text \<open>
  The \<^verbatim>\<open>onclick\<close> of a delete button after its \<^verbatim>\<open>await\<close>. \<open>keywordId\<close> is
  \<^verbatim>\<open>parseInt(event.target.dataset.id)\<close>: the button was rendered with the \<^verbatim>\<open>id\<close> of its
  keyword. A response that is \<^verbatim>\<open>ok\<close> is not parsed.
\<close>

definition deleteKeyword_response :: "int \<Rightarrow> unit response \<Rightarrow> state \<Rightarrow> state" where
  "deleteKeyword_response keywordId resp s =
     (case resp of
        NetworkError \<Rightarrow> console_out Error ''Network error deleting keyword:'' s
      | Response ok body \<Rightarrow>
          if ok then
            console_out Log ''Keyword deleted:''
              (s\<lparr>keywords := filter (\<lambda>kw. kw_id kw \<noteq> keywordId) (keywords s)\<rparr>)
          else (case body of
                  None \<Rightarrow> console_out Error ''Network error deleting keyword:'' s
                | Some _ \<Rightarrow> console_out Error ''Failed to delete keyword:'' s))"

text \<open>\<^verbatim>\<open>loadKeywords\<close> after its \<^verbatim>\<open>await\<close>.\<close>

definition loadKeywords_response :: "keyword list response \<Rightarrow> state \<Rightarrow> state" where
  "loadKeywords_response resp s =
     (case resp of
        NetworkError \<Rightarrow> console_out Error ''Network error loading keywords:'' s
      | Response ok body \<Rightarrow>
          (case body of
             None \<Rightarrow> console_out Error ''Network error loading keywords:'' s
           | Some kws \<Rightarrow>
               if ok then console_out Log ''Keywords loaded:'' (s\<lparr>keywords := kws\<rparr>)
               else console_out Error ''Failed to load keywords:'' s))"

section \<open>The event loop\<close>

text \<open>
  One event is one run of a handler to its end or to its next \<^verbatim>\<open>await\<close>. \<open>step\<close> gives
  \<open>None\<close> for an event the browser cannot deliver in the state: a click on a disabled
  button, an event of an object that does not exist or is past the event, a resumption
  with no handler suspended, a timer with none pending. An \<^verbatim>\<open>error\<close> event can reach any
  socket, also one whose state is already \<^verbatim>\<open>CLOSED\<close>. All timers have the same delay,
  so they fire in the order they were set. Pending \<^verbatim>\<open>fetch\<close> calls are not tracked.

  Left out are the handlers that write only to the page and the console: \<^verbatim>\<open>ws.onmessage\<close>
  with \<^verbatim>\<open>displayTranscription\<close> and \<^verbatim>\<open>displayAlert\<close>, the file upload, and
  \<^verbatim>\<open>renderKeywords\<close>; likewise the two placeholders a granted start writes into the
  display elements. None of them assigns a variable of the script.
\<close>

datatype event =
    StartClick string
  | MicGranted bool
  | MicRejected
  | StopClick
  | SpeakerSelected string
  | SocketOpen nat
  | SocketClose nat bool
  | SocketError nat
  | TimerFire
  | DataAvailable nat blob
  | RecorderStopped nat
  | RecorderError nat string string
  | KeywordTyped string string
  | AddKeywordResponse "keyword response"
  | DeleteKeywordResponse int "unit response"
  | LoadKeywordsResponse "keyword list response"

definition set_readyState :: "nat \<Rightarrow> readyState \<Rightarrow> state \<Rightarrow> state" where
  "set_readyState i r s = s\<lparr>sockets := (sockets s)[i := (sockets s ! i)\<lparr>readyState := r\<rparr>]\<rparr>"

fun step :: "event \<Rightarrow> state \<Rightarrow> state option" where
  "step (StartClick new_id) s =
     (if startRecordingBtn_disabled s then None
      else Some ((startRecording_click new_id s)
                   \<lparr>awaiting_getUserMedia := Suc (awaiting_getUserMedia s)\<rparr>))"
| "step (MicGranted supported) s =
     (case awaiting_getUserMedia s of
        0 \<Rightarrow> None
      | Suc n \<Rightarrow> Some (startRecording_granted supported (s\<lparr>awaiting_getUserMedia := n\<rparr>)))"
| "step MicRejected s =
     (case awaiting_getUserMedia s of
        0 \<Rightarrow> None
      | Suc n \<Rightarrow> Some (startRecording_rejected (s\<lparr>awaiting_getUserMedia := n\<rparr>)))"
| "step StopClick s =
     (if stopRecordingBtn_disabled s then None else Some (stopRecording_click s))"
| "step (SpeakerSelected v) s = Some (setSpeakerType v s)"
| "step (SocketOpen i) s =
     (if i < length (sockets s) \<and> readyState (sockets s ! i) = CONNECTING
      then Some (ws_onopen (set_readyState i OPEN s)) else None)"
| "step (SocketClose i wasClean) s =
     (if i < length (sockets s) \<and> readyState (sockets s ! i) \<noteq> CLOSED
      then Some (ws_onclose wasClean (set_readyState i CLOSED s)) else None)"
| "step (SocketError i) s =
     (if i < length (sockets s) then Some (ws_onerror s) else None)"
| "step TimerFire s =
     (case timers s of
        [] \<Rightarrow> None
      | t # ts \<Rightarrow> Some (run_callback (callback t) (s\<lparr>timers := ts\<rparr>)))"
| "step (DataAvailable r data) s =
     (if r < length (recorders s) then Some (mediaRecorder_ondataavailable data s) else None)"
| "step (RecorderStopped r) s =
     (if r < length (recorders s) \<and> rec_state (recorders s ! r) = inactive
      then Some (mediaRecorder_onstop r s) else None)"
| "step (RecorderError r name message) s =
     (if r < length (recorders s) then Some (mediaRecorder_onerror name message s) else None)"
| "step (KeywordTyped w t) s =
     Some (s\<lparr>newKeywordInput_value := w, newTalkingPointInput_value := t\<rparr>)"
| "step (AddKeywordResponse resp) s = Some (addKeyword_response resp s)"
| "step (DeleteKeywordResponse keywordId resp) s = Some (deleteKeyword_response keywordId resp s)"
| "step (LoadKeywordsResponse resp) s = Some (loadKeywords_response resp s)"

fun run :: "event list \<Rightarrow> state \<Rightarrow> state option" where
  "run [] s = Some s"
| "run (e # es) s = (case step e s of None \<Rightarrow> None | Some s' \<Rightarrow> run es s')"

text \<open>
  The state when \<^verbatim>\<open>DOMContentLoaded\<close> has been handled: no socket, no recorder, an empty
  cache, and the identity drawn at line 19. The page's address, the selected speaker type
  and the buttons' \<^verbatim>\<open>disabled\<close> attributes come from the markup.
\<close>

definition loaded :: "string \<Rightarrow> string \<Rightarrow> string \<Rightarrow> bool \<Rightarrow> string \<Rightarrow> state" where
  "loaded protocol host speaker stop_disabled id0 =
     \<lparr>location_protocol = protocol, location_host = host,
      speakerTypeSelect_value = speaker,
      startRecordingBtn_disabled = False, stopRecordingBtn_disabled = stop_disabled,
      newKeywordInput_value = [], newTalkingPointInput_value = [],
      recorders = [], mediaRecorder = None, audioChunks = [],
      sockets = [], ws = None, sessionId = id0, keywords = [], timers = [],
      awaiting_getUserMedia = 0, console = []\<rparr>"

section \<open>Vocabulary of the properties\<close>

text \<open>A start-intent is the only event that draws a new identity.\<close>

fun is_start :: "event \<Rightarrow> bool" where
  "is_start (StartClick new_id) = True"
| "is_start e = False"

text \<open>
  A keyword request has failed when the promise was rejected or the response is not
  \<^verbatim>\<open>ok\<close>.
\<close>

fun failed :: "'a response \<Rightarrow> bool" where
  "failed NetworkError = True"
| "failed (Response ok body) = (\<not> ok)"

text \<open>The state with the chunk buffer emptied: all that is not the buffer.\<close>

definition erase_buffer :: "state \<Rightarrow> state" where
  "erase_buffer s = s\<lparr>audioChunks := []\<rparr>"

subsection \<open>Concrete inputs\<close>

definition cached :: "int \<Rightarrow> string \<Rightarrow> keyword" where
  "cached i w = \<lparr>kw_id = i, word = w, talking_point = [], is_active = True\<rparr>"

definition page0 :: state where
  "page0 = loaded ''http:'' ''localhost:8000'' ''rep'' True ''session_0''"

text \<open>A start attempt on the fresh page whose device request is rejected.\<close>

definition denied_start :: state where
  "denied_start = startRecording_rejected (startRecording_click ''session_a'' page0)"

text \<open>The fresh page with one keyword in the cache.\<close>

definition page_pricing :: state where
  "page_pricing = page0\<lparr>keywords := [cached 1 ''pricing'']\<rparr>"

text \<open>A capture chunk of three bytes.\<close>

definition three_bytes :: blob where
  "three_bytes = [1, 2, 3]"

definition reconnect_timer :: timer where
  "reconnect_timer = \<lparr>callback = ConnectWebSocket, delay = 3000\<rparr>"

definition socket_a :: "readyState \<Rightarrow> frame list \<Rightarrow> socket" where
  "socket_a r fs = \<lparr>url = ''ws://localhost:8000/ws/audio/session_a/'', readyState = r, sent = fs\<rparr>"

text \<open>Start clicked and the transport open; the device request is still pending.\<close>

definition open_page :: state where
  "open_page =
     page0\<lparr>sessionId := ''session_a'', sockets := [socket_a OPEN [Control ''rep'']],
       ws := Some 0, awaiting_getUserMedia := 1,
       console := [(Log, ''Attempting to connect WebSocket to:''),
         (Log, ''Requesting microphone access...''),
         (Log, ''WebSocket connected successfully'')]\<rparr>"

text \<open>Recording while the transport is still connecting.\<close>

definition connecting_page :: state where
  "connecting_page =
     page0\<lparr>sessionId := ''session_a'', sockets := [socket_a CONNECTING []],
       ws := Some 0, startRecordingBtn_disabled := True, stopRecordingBtn_disabled := False,
       recorders := [\<lparr>rec_state = recording, mimeType = Some ''audio/webm;codecs=opus'',
                      timeslice = 1000, tracks_stopped = False\<rparr>],
       mediaRecorder := Some 0,
       console := [(Log, ''Attempting to connect WebSocket to:''),
         (Log, ''Requesting microphone access...''),
         (Log, ''Microphone access granted. Stream:''),
         (Log, ''MediaRecorder created. State:''),
         (Log, ''MediaRecorder started. Current state:''),
         (Log, ''Recording started...'')]\<rparr>"

text \<open>Streaming: recording, and the transport open.\<close>

definition streaming_page :: state where
  "streaming_page =
     page0\<lparr>sessionId := ''session_a'', sockets := [socket_a OPEN [Control ''rep'']],
       ws := Some 0, startRecordingBtn_disabled := True, stopRecordingBtn_disabled := False,
       recorders := [\<lparr>rec_state = recording, mimeType = Some ''audio/webm;codecs=opus'',
                      timeslice = 1000, tracks_stopped = False\<rparr>],
       mediaRecorder := Some 0,
       console := [(Log, ''Attempting to connect WebSocket to:''),
         (Log, ''Requesting microphone access...''),
         (Log, ''WebSocket connected successfully''),
         (Log, ''Microphone access granted. Stream:''),
         (Log, ''MediaRecorder created. State:''),
         (Log, ''MediaRecorder started. Current state:''),
         (Log, ''Recording started...'')]\<rparr>"

text \<open>Streaming, and then the transport closed abnormally.\<close>

definition dropped_page :: state where
  "dropped_page = ws_onclose False (set_readyState 0 CLOSED streaming_page)"

section \<open>Properties of the highlighter\<close>

lemma literal_examples:
  "literal_word ''cat''" "literal_word ''category''" "literal_word ''span''"
  "literal_word ''highlight''"
  by code_simp+

lemma replace_examples:
  \<open>replace_global ''cat'' ''category'' = wrap ''cat'' @ ''egory''\<close>
  \<open>replace_global ''category'' (wrap ''cat'' @ ''egory'') = wrap ''cat'' @ ''egory''\<close>
  \<open>replace_global ''category'' ''category'' = wrap ''category''\<close>
  \<open>replace_global ''cat'' (wrap ''category'') = marker_open @ wrap ''cat'' @ ''egory'' @ marker_close\<close>
  \<open>replace_global ''cat'' ''cat'' = wrap ''cat''\<close>
  \<open>replace_global ''span'' (wrap ''cat'') =
     ''<'' @ wrap ''span'' @ '' class="highlight">cat</'' @ wrap ''span'' @ ''>''\<close>
  \<open>replace_global ''highlight'' (wrap ''cat'') = ''<span class="'' @ wrap ''highlight'' @ ''">cat</span>''\<close>
  by code_simp+

text \<open>
  C8. Highlighting with an empty keyword cache is the identity: whatever the text and the
  rest of the state, \<^verbatim>\<open>highlightKeywordsInText\<close> returns the text it was given.
\<close>

theorem highlight_empty_cache_identity:
  "highlightKeywordsInText (s\<lparr>keywords := []\<rparr>) T = Some T"
  by (simp add: highlightKeywordsInText_def)

text \<open>
  C6, as the claim has it, fails: with the cache \<^verbatim>\<open>["cat", "category"]\<close> in that order the
  text \<^verbatim>\<open>"category"\<close> becomes \<^verbatim>\<open><span class="highlight">cat</span>egory\<close>. The result holds
  one marker, and the keyword \<^verbatim>\<open>category\<close> is not wrapped anywhere in it: the wrapper put
  around \<^verbatim>\<open>cat\<close> has split its only occurrence before the second replacement runs.
\<close>

theorem highlight_cat_category_counterexample:
  \<open>highlightKeywordsInText (page0\<lparr>keywords := [cached 1 ''cat'', cached 2 ''category'']\<rparr>) ''category''
     = Some ''<span class="highlight">cat</span>egory'' \<and>
   count_matches marker_open ''<span class="highlight">cat</span>egory'' = 1 \<and>
   \<not> occurs_in (wrap ''category'') ''<span class="highlight">cat</span>egory''\<close>
proof -
  have \<open>highlightKeywordsInText (page0\<lparr>keywords := [cached 1 ''cat'', cached 2 ''category'']\<rparr>) ''category''
     = Some (wrap ''cat'' @ ''egory'')\<close>
    by (simp add: highlightKeywordsInText_def cached_def literal_examples replace_examples
          del: replace_global.simps)
  moreover have \<open>wrap ''cat'' @ ''egory'' = ''<span class="highlight">cat</span>egory''\<close>
    by (simp add: wrap_def marker_open_def marker_close_def)
  moreover have \<open>count_matches marker_open ''<span class="highlight">cat</span>egory'' = 1\<close>
    by code_simp
  moreover have \<open>\<not> occurs_in (wrap ''category'') ''<span class="highlight">cat</span>egory''\<close>
    by code_simp
  ultimately show ?thesis by simp
qed

text \<open>
  C6, amended. With the cache \<^verbatim>\<open>["cat", "category"]\<close> the text \<^verbatim>\<open>"category"\<close> comes out with
  only \<^verbatim>\<open>cat\<close> wrapped, followed by \<^verbatim>\<open>egory\<close>. Matches are not exclusive in the other
  order: with the cache \<^verbatim>\<open>["category", "cat"]\<close> the first replacement wraps the whole word
  and the second wraps \<^verbatim>\<open>cat\<close> again inside that wrapper, so the markers nest.
\<close>

theorem highlight_overlap_depends_on_order:
  \<open>highlightKeywordsInText (s\<lparr>keywords := [cached i ''cat'', cached j ''category'']\<rparr>) ''category''
     = Some (wrap ''cat'' @ ''egory'') \<and>
   highlightKeywordsInText (s\<lparr>keywords := [cached i ''category'', cached j ''cat'']\<rparr>) ''category''
     = Some (marker_open @ wrap ''cat'' @ ''egory'' @ marker_close)\<close>
  by (simp add: highlightKeywordsInText_def cached_def literal_examples replace_examples
        del: replace_global.simps)

subsection \<open>Matching inside the inserted markup\<close>

lemma match_at_append: "match_at p t \<Longrightarrow> match_at p (t @ b)"
  by (induction p t rule: match_at.induct) simp_all

lemma match_at_occurs: "match_at p t \<Longrightarrow> occurs_in p t"
  by (cases t; cases p) simp_all

lemma occurs_in_append_right: "occurs_in p t \<Longrightarrow> occurs_in p (t @ b)"
proof (induction t)
  case Nil
  then have "p = []" by simp
  then show ?case by (cases b) simp_all
next
  case (Cons c cs)
  then show ?case using match_at_append [of p "c # cs" b] by auto
qed

lemma occurs_in_append_left: "occurs_in p t \<Longrightarrow> occurs_in p (a @ t)"
  by (induction a) (auto simp del: match_at.simps)

lemma occurs_in_context: "occurs_in p t \<Longrightarrow> occurs_in p (a @ t @ b)"
  by (simp add: occurs_in_append_left occurs_in_append_right)

lemma match_at_take:
  "match_at p t \<Longrightarrow> match_at p (take (length p) t) \<and> length (take (length p) t) = length p"
  by (induction p t rule: match_at.induct) simp_all

lemma match_at_same: "match_at x x"
  by (induction x) simp_all

lemma match_at_parts:
  "length x = length x' \<Longrightarrow> match_at x x' \<Longrightarrow> match_at y y' \<Longrightarrow> match_at (x @ y) (x' @ y')"
  by (induction x x' rule: list_induct2) simp_all

lemma match_at_wrap:
  assumes "match_at p m" and "length m = length p"
  shows "match_at (wrap p) (wrap m @ b)"
proof -
  from assms have "match_at (p @ marker_close) (m @ marker_close @ b)"
    by (simp add: match_at_parts match_at_append match_at_same)
  then have "match_at (marker_open @ p @ marker_close) (marker_open @ m @ marker_close @ b)"
    by (rule match_at_parts [OF refl match_at_same])
  then show ?thesis by (simp add: wrap_def)
qed

lemma replace_global_wraps:
  "p \<noteq> [] \<Longrightarrow> occurs_in p t \<Longrightarrow>
     \<exists>a m b. replace_global p t = a @ wrap m @ b \<and> length m = length p \<and> match_at p m"
proof (induction p t rule: replace_global.induct)
  case (1 p)
  then show ?case by simp
next
  case (2 p c cs)
  show ?case
  proof (cases "match_at p (c # cs)")
    case True
    with "2.prems"(1) match_at_take [of p "c # cs"]
    have "replace_global p (c # cs) =
            [] @ wrap (take (length p) (c # cs)) @ replace_global p (drop (length p) (c # cs)) \<and>
          length (take (length p) (c # cs)) = length p \<and> match_at p (take (length p) (c # cs))"
      by simp
    then show ?thesis by blast
  next
    case False
    with "2.prems"(2) have "occurs_in p cs" by simp
    with "2.IH"(3) [OF "2.prems"(1) False "2.prems"(1)] obtain a m b where
      "replace_global p cs = a @ wrap m @ b" "length m = length p" "match_at p m"
      by blast
    with False "2.prems"(1) have "replace_global p (c # cs) = (c # a) @ wrap m @ b \<and>
        length m = length p \<and> match_at p m"
      by simp
    then show ?thesis by blast
  qed
qed

lemma replace_global_wrapped_occurs:
  assumes "p \<noteq> []" and "occurs_in p t"
  shows "occurs_in (wrap p) (replace_global p t)"
proof -
  from replace_global_wraps [OF assms] obtain a m b where
    r: "replace_global p t = a @ wrap m @ b" and l: "length m = length p" and m: "match_at p m"
    by blast
  from match_at_wrap [OF m l] have "occurs_in (wrap p) (wrap m @ b)"
    by (rule match_at_occurs)
  then show ?thesis unfolding r by (rule occurs_in_append_left)
qed

lemma marker_text_occurs:
  assumes "occurs_in k marker_open \<or> occurs_in k marker_close"
  shows "occurs_in k (a @ wrap m @ b)"
proof -
  from assms have "occurs_in k (wrap m)"
  proof
    assume "occurs_in k marker_open"
    then show ?thesis unfolding wrap_def by (rule occurs_in_append_right)
  next
    assume "occurs_in k marker_close"
    then have "occurs_in k (marker_open @ m @ marker_close)"
      using occurs_in_append_left [of k marker_close "marker_open @ m"] by simp
    then show ?thesis by (simp add: wrap_def)
  qed
  then show ?thesis by (rule occurs_in_context)
qed

lemma later_keyword_matches_markup:
  assumes "w \<noteq> []" and "occurs_in w T" and "k \<noteq> []"
    and "occurs_in k marker_open \<or> occurs_in k marker_close"
  shows "occurs_in (wrap k) (replace_global k (replace_global w T))"
proof -
  from replace_global_wraps [OF assms(1,2)] obtain a m b where
    "replace_global w T = a @ wrap m @ b" by blast
  with marker_text_occurs [OF assms(4)] have "occurs_in k (replace_global w T)" by simp
  with assms(3) show ?thesis by (rule replace_global_wrapped_occurs)
qed

lemma markup_examples:
  \<open>highlightKeywordsInText (s\<lparr>keywords := [cached i ''cat'', cached j ''span'']\<rparr>) ''cat''
     = Some (''<'' @ wrap ''span'' @ '' class="highlight">cat</'' @ wrap ''span'' @ ''>'')\<close>
  \<open>highlightKeywordsInText (s\<lparr>keywords := [cached i ''cat'', cached j ''highlight'']\<rparr>) ''cat''
     = Some (''<span class="'' @ wrap ''highlight'' @ ''">cat</span>'')\<close>
  by (simp_all add: highlightKeywordsInText_def cached_def literal_examples replace_examples
        del: replace_global.simps)

text \<open>
  C9. The pass does not tell the input from the markup it has inserted. Let a first
  keyword \<open>w\<close> match somewhere in the text, and let a later keyword \<open>k\<close> be a word that
  occurs in the marker text (in the opening or in the closing tag, as \<^verbatim>\<open>span\<close> and
  \<^verbatim>\<open>highlight\<close> do). Then \<open>k\<close> occurs in the text as the first replacement leaves
  it, whether or not it occurred in the input, and the output of the pass holds \<open>k\<close>
  wrapped in a marker.
\<close>

theorem highlight_rewraps_inserted_markup:
  assumes "literal_word w" and "w \<noteq> []" and "occurs_in w T"
    and "literal_word k" and "k \<noteq> []"
    and "occurs_in k marker_open \<or> occurs_in k marker_close"
  shows "occurs_in k (replace_global w T) \<and>
         (\<exists>out. highlightKeywordsInText (s\<lparr>keywords := [cached i w, cached j k]\<rparr>) T = Some out \<and>
                occurs_in (wrap k) out)"
proof -
  from replace_global_wraps [OF assms(2,3)] obtain a m b where
    "replace_global w T = a @ wrap m @ b" by blast
  with marker_text_occurs [OF assms(6)] have "occurs_in k (replace_global w T)" by simp
  moreover
  from assms(1,4)
  have "highlightKeywordsInText (s\<lparr>keywords := [cached i w, cached j k]\<rparr>) T =
          Some (replace_global k (replace_global w T))"
    by (simp add: highlightKeywordsInText_def cached_def)
  moreover
  from later_keyword_matches_markup [OF assms(2,3,5,6)]
  have "occurs_in (wrap k) (replace_global k (replace_global w T))" .
  ultimately show ?thesis by simp
qed

text \<open>
  The instance with the cache \<^verbatim>\<open>["cat", "span"]\<close> and the text \<^verbatim>\<open>"cat"\<close>: the input does not
  contain \<^verbatim>\<open>span\<close>, and the output wraps it in both tags of the wrapper put around
  \<^verbatim>\<open>cat\<close>.
\<close>

theorem highlight_rewraps_inserted_markup_witness:
  \<open>literal_word ''cat'' \<and> ''cat'' \<noteq> [] \<and> occurs_in ''cat'' ''cat'' \<and>
   literal_word ''span'' \<and> ''span'' \<noteq> [] \<and> occurs_in ''span'' marker_open \<and>
   \<not> occurs_in ''span'' ''cat'' \<and>
   highlightKeywordsInText (page0\<lparr>keywords := [cached 1 ''cat'', cached 2 ''span'']\<rparr>) ''cat''
     = Some (''<'' @ wrap ''span'' @ '' class="highlight">cat</'' @ wrap ''span'' @ ''>'') \<and>
   occurs_in (wrap ''span'') (''<'' @ wrap ''span'' @ '' class="highlight">cat</'' @ wrap ''span'' @ ''>'')\<close>
proof -
  have c: "occurs_in ''cat'' ''cat''" and n: "\<not> occurs_in ''span'' ''cat''"
    and o: "occurs_in ''span'' marker_open"
    by code_simp+
  have ne: "''cat'' \<noteq> []" "''span'' \<noteq> []" by simp_all
  note l = literal_examples(1) literal_examples(3)
  from highlight_rewraps_inserted_markup
         [OF l(1) ne(1) c l(2) ne(2) disjI1 [OF o], where s = page0 and i = 1 and j = 2]
  have \<open>occurs_in (wrap ''span'')
          (''<'' @ wrap ''span'' @ '' class="highlight">cat</'' @ wrap ''span'' @ ''>'')\<close>
    by (simp add: markup_examples del: occurs_in.simps)
  with c n o ne l show ?thesis
    by (simp add: markup_examples del: occurs_in.simps)
qed

section \<open>Lemmas on the handlers\<close>

lemmas effect_defs = console_out_def socket_send_def socket_close_def setTimeout_def
  connectWebSocket_def set_readyState_def wsUrl_def mediaRecorder_stop_def

lemmas primitive_defs = effect_defs open_ws_def mediaRecorder_recording_def

lemmas handler_defs = ws_onopen_def ws_onclose_def ws_onerror_def startRecording_click_def
  startRecording_granted_def startRecording_rejected_def
  stopRecording_click_def mediaRecorder_ondataavailable_def
  mediaRecorder_onstop_def mediaRecorder_onerror_def speakerType_change_def setSpeakerType_def
  addKeyword_response_def deleteKeyword_response_def loadKeywords_response_def

lemma run_callback_eq [simp]: "run_callback cb s = connectWebSocket s"
  by (cases cb) simp

subsection \<open>The test for an open transport\<close>

lemma open_ws_SomeD:
  "open_ws s = Some i \<Longrightarrow>
     ws s = Some i \<and> i < length (sockets s) \<and> readyState (sockets s ! i) = OPEN"
  by (auto simp: open_ws_def split: option.splits if_splits)

lemma open_ws_cong: "ws s = ws t \<Longrightarrow> sockets s = sockets t \<Longrightarrow> open_ws s = open_ws t"
  by (simp add: open_ws_def split: option.splits)

lemma tests_ignore_other_fields:
  "open_ws (audioChunks_update f s) = open_ws s"
  "open_ws (speakerTypeSelect_value_update g s) = open_ws s"
  "open_ws (console_update h s) = open_ws s"
  "mediaRecorder_recording (audioChunks_update f s) = mediaRecorder_recording s"
  by (simp_all add: open_ws_def mediaRecorder_recording_def split: option.splits)

lemma socket_send_open:
  "i < length (sockets s) \<Longrightarrow> readyState (sockets s ! i) = OPEN \<Longrightarrow>
   socket_send i f s =
     s\<lparr>sockets := (sockets s)[i := (sockets s ! i)\<lparr>sent := sent (sockets s ! i) @ [f]\<rparr>]\<rparr>"
  by (simp add: socket_send_def)

subsection \<open>Who touches the timers\<close>

lemma timers_handlers:
  "timers (ws_onopen s) = timers s"
  "timers (ws_onerror s) = timers s"
  "timers (ws_onclose True s) = timers s"
  "timers (ws_onclose False s) = timers s @ [reconnect_timer]"
  "timers (startRecording_click new_id s) = timers s"
  "timers (startRecording_granted g s) = timers s"
  "timers (startRecording_rejected s) = timers s"
  "timers (stopRecording_click s) = timers s"
  "timers (mediaRecorder_ondataavailable d s) = timers s"
  "timers (mediaRecorder_onstop r s) = timers s"
  "timers (mediaRecorder_onerror n m s) = timers s"
  "timers (setSpeakerType v s) = timers s"
  "timers (addKeyword_response ra s) = timers s"
  "timers (deleteKeyword_response k rd s) = timers s"
  "timers (loadKeywords_response rl s) = timers s"
  by (simp_all add: handler_defs primitive_defs reconnect_timer_def Let_def
        split: option.splits response.splits readyState.splits)

lemma timers_ws_onclose: "\<exists>new. timers (ws_onclose c s) = timers s @ new"
  by (cases c) (simp_all add: timers_handlers)

lemma step_keeps_timers:
  "step e s = Some t \<Longrightarrow> e \<noteq> TimerFire \<Longrightarrow> \<exists>new. timers t = timers s @ new"
proof (cases e)
  case (SocketClose i c)
  assume "step e s = Some t"
  with SocketClose have "t = ws_onclose c (set_readyState i CLOSED s)"
    by (simp split: if_splits)
  with timers_ws_onclose [of c "set_readyState i CLOSED s"] show ?thesis
    by (simp add: set_readyState_def)
qed (auto simp: timers_handlers set_readyState_def split: if_splits nat.splits)

lemma timer_fires:
  "timers s = tm # ts \<Longrightarrow>
   \<exists>t. step TimerFire s = Some t \<and> timers t = ts \<and>
       sockets t = sockets s @ [\<lparr>url = wsUrl s, readyState = CONNECTING, sent = []\<rparr>] \<and>
       ws t = Some (length (sockets s))"
  by (simp add: connectWebSocket_def console_out_def wsUrl_def Let_def)

subsection \<open>Who touches the identity\<close>

lemma identity_handlers:
  "wsUrl (ws_onopen s) = wsUrl s"
  "wsUrl (ws_onerror s) = wsUrl s"
  "wsUrl (ws_onclose c s) = wsUrl s"
  "wsUrl (connectWebSocket s) = wsUrl s"
  "wsUrl (startRecording_granted g s) = wsUrl s"
  "wsUrl (startRecording_rejected s) = wsUrl s"
  "wsUrl (stopRecording_click s) = wsUrl s"
  "wsUrl (mediaRecorder_ondataavailable d s) = wsUrl s"
  "wsUrl (mediaRecorder_onstop r s) = wsUrl s"
  "wsUrl (mediaRecorder_onerror n m s) = wsUrl s"
  "wsUrl (setSpeakerType v s) = wsUrl s"
  "wsUrl (addKeyword_response ra s) = wsUrl s"
  "wsUrl (deleteKeyword_response k rd s) = wsUrl s"
  "wsUrl (loadKeywords_response rl s) = wsUrl s"
  by (simp_all add: handler_defs primitive_defs Let_def
        split: option.splits response.splits readyState.splits)

lemma sessionId_handlers:
  "sessionId (ws_onopen s) = sessionId s"
  "sessionId (ws_onerror s) = sessionId s"
  "sessionId (ws_onclose c s) = sessionId s"
  "sessionId (connectWebSocket s) = sessionId s"
  "sessionId (startRecording_granted g s) = sessionId s"
  "sessionId (startRecording_rejected s) = sessionId s"
  "sessionId (stopRecording_click s) = sessionId s"
  "sessionId (mediaRecorder_ondataavailable d s) = sessionId s"
  "sessionId (mediaRecorder_onstop r s) = sessionId s"
  "sessionId (mediaRecorder_onerror n m s) = sessionId s"
  "sessionId (setSpeakerType v s) = sessionId s"
  "sessionId (addKeyword_response ra s) = sessionId s"
  "sessionId (deleteKeyword_response k rd s) = sessionId s"
  "sessionId (loadKeywords_response rl s) = sessionId s"
  by (simp_all add: handler_defs primitive_defs Let_def
        split: option.splits response.splits readyState.splits)

lemma identity_frame:
  "wsUrl (set_readyState i r s) = wsUrl s"
  "wsUrl (s\<lparr>timers := ts\<rparr>) = wsUrl s"
  "wsUrl (s\<lparr>awaiting_getUserMedia := n\<rparr>) = wsUrl s"
  "wsUrl (s\<lparr>newKeywordInput_value := w, newTalkingPointInput_value := tp\<rparr>) = wsUrl s"
  "sessionId (set_readyState i r s) = sessionId s"
  by (simp_all add: wsUrl_def set_readyState_def)

lemma step_identity:
  "step e s = Some t \<Longrightarrow> \<not> is_start e \<Longrightarrow> wsUrl t = wsUrl s \<and> sessionId t = sessionId s"
  by (cases e)
     (auto simp: identity_handlers sessionId_handlers identity_frame
           split: if_splits nat.splits list.splits)

lemma run_identity:
  "run es s = Some t \<Longrightarrow> list_all (\<lambda>e. \<not> is_start e) es \<Longrightarrow>
     wsUrl t = wsUrl s \<and> sessionId t = sessionId s"
proof (induction es arbitrary: s)
  case Nil
  then show ?case by simp
next
  case (Cons e es)
  from Cons.prems(1) obtain u where u: "step e s = Some u" and r: "run es u = Some t"
    by (auto split: option.splits)
  from Cons.prems(2) have ne: "\<not> is_start e" and rest: "list_all (\<lambda>e. \<not> is_start e) es"
    by simp_all
  from Cons.IH [OF r rest] step_identity [OF u ne] show ?case by simp
qed

subsection \<open>Nobody reads the chunk buffer\<close>

lemma step_ignores_buffer:
  "map_option erase_buffer (step e (s\<lparr>audioChunks := b\<rparr>)) = map_option erase_buffer (step e s)"
  by (cases e)
     (auto simp: handler_defs effect_defs tests_ignore_other_fields Let_def erase_buffer_def
           split: if_splits option.splits readyState.splits nat.splits list.splits response.splits)

lemma erase_buffer_eqD:
  "erase_buffer u' = erase_buffer u \<Longrightarrow> u' = u\<lparr>audioChunks := audioChunks u'\<rparr>"
proof -
  assume "erase_buffer u' = erase_buffer u"
  then have "(erase_buffer u')\<lparr>audioChunks := audioChunks u'\<rparr> =
             (erase_buffer u)\<lparr>audioChunks := audioChunks u'\<rparr>"
    by simp
  then show ?thesis by (simp add: erase_buffer_def)
qed

lemma run_ignores_buffer:
  "map_option erase_buffer (run es (s\<lparr>audioChunks := b\<rparr>)) = map_option erase_buffer (run es s)"
proof (induction es arbitrary: s b)
  case Nil
  show ?case by (simp add: erase_buffer_def)
next
  case (Cons e es)
  show ?case
  proof (cases "step e s")
    case None
    with step_ignores_buffer [where e = e and s = s and b = b]
    have "step e (s\<lparr>audioChunks := b\<rparr>) = None" by simp
    with None show ?thesis by simp
  next
    case (Some u)
    with step_ignores_buffer [where e = e and s = s and b = b] obtain u' where
      u': "step e (s\<lparr>audioChunks := b\<rparr>) = Some u'" and eq: "erase_buffer u' = erase_buffer u"
      by auto
    from erase_buffer_eqD [OF eq] have "run es u' = run es (u\<lparr>audioChunks := audioChunks u'\<rparr>)"
      by simp
    with Cons.IH [where s = u and b = "audioChunks u'"] Some u' show ?thesis by simp
  qed
qed

subsection \<open>The concrete states\<close>

lemma example_states_reachable:
  "run [StartClick ''session_a'', MicRejected] page0 = Some denied_start"
  "run [StartClick ''session_a'', SocketOpen 0] page0 = Some open_page"
  "run [StartClick ''session_a'', MicGranted True] page0 = Some connecting_page"
  "run [StartClick ''session_a'', SocketOpen 0, MicGranted True] page0 = Some streaming_page"
  "run [StartClick ''session_a'', SocketOpen 0, MicGranted True, SocketClose 0 False] page0 =
     Some dropped_page"
  by code_simp+

lemma example_tests:
  "open_ws page0 = None" "open_ws open_page = Some 0" "open_ws connecting_page = None"
  "open_ws streaming_page = Some 0"
  by code_simp+

lemma denied_start_eq:
  "denied_start =
     page0\<lparr>sessionId := ''session_a'', sockets := [socket_a CONNECTING []],
       ws := Some 0, startRecordingBtn_disabled := False, stopRecordingBtn_disabled := True,
       console := [(Log, ''Attempting to connect WebSocket to:''),
         (Log, ''Requesting microphone access...''),
         (Error, ''Error accessing microphone:''),
         (Error, ''Microphone Access Error: Could not start recording. Please ensure microphone access is granted.'')]\<rparr>"
  by (simp add: denied_start_def page0_def loaded_def startRecording_rejected_def
        startRecording_click_def connectWebSocket_def console_out_def wsUrl_def socket_a_def Let_def)

lemma dropped_page_eq:
  "dropped_page =
     streaming_page\<lparr>sockets := [socket_a CLOSED [Control ''rep'']],
       timers := [reconnect_timer],
       console := console streaming_page @ [(Log, ''WebSocket disconnected''),
         (Log, ''Attempting to reconnect WebSocket...'')]\<rparr>"
  by (simp add: dropped_page_def ws_onclose_def set_readyState_def setTimeout_def console_out_def
        streaming_page_def page0_def loaded_def socket_a_def reconnect_timer_def)

lemma stopped_dropped_page_sockets:
  "length (sockets (stopRecording_click dropped_page)) = 1"
  by (simp add: dropped_page_eq streaming_page_def stopRecording_click_def
        mediaRecorder_recording_def mediaRecorder_stop_def socket_close_def console_out_def
        socket_a_def Let_def)

section \<open>Properties of the session\<close>

subsection \<open>A start attempt whose device request is rejected\<close>

text \<open>
  C1, as the claim has it, fails: the click opens the transport before it asks for the
  device, and the \<^verbatim>\<open>catch\<close> block does not touch it. On the fresh page, after the start
  click, the rejection and the transport's \<^verbatim>\<open>open\<close> event, the socket of the attempt is
  open and has carried the speaker-type announcement.
\<close>

theorem rejected_start_counterexample:
  "map_option sockets (run [StartClick ''session_a'', MicRejected, SocketOpen 0] page0) =
     Some [\<lparr>url = ''ws://localhost:8000/ws/audio/session_a/'', readyState = OPEN,
            sent = [Control ''rep'']\<rparr>]"
  by code_simp

text \<open>
  C1, amended. The start click has opened a transport for the identity it drew (a new
  socket, connecting, now the current one) before the device is asked for. When the
  request is then rejected, in whatever state \<open>t\<close> the rejection arrives, the failure
  path writes two error lines to the console, enables the start button and disables the
  stop button; it creates no recorder, buffers nothing, sends no frame on any socket, sets
  no timer (nothing is retried) and keeps the identity.
\<close>

theorem rejected_start_effects:
  "sockets (startRecording_click new_id s) =
     sockets s @ [\<lparr>url = wsUrl (s\<lparr>sessionId := new_id\<rparr>), readyState = CONNECTING, sent = []\<rparr>] \<and>
   ws (startRecording_click new_id s) = Some (length (sockets s)) \<and>
   console (startRecording_rejected t) =
     console t @
       [(Error, ''Error accessing microphone:''),
        (Error, ''Microphone Access Error: Could not start recording. Please ensure microphone access is granted.'')] \<and>
   \<not> startRecordingBtn_disabled (startRecording_rejected t) \<and>
   stopRecordingBtn_disabled (startRecording_rejected t) \<and>
   recorders (startRecording_rejected t) = recorders t \<and>
   mediaRecorder (startRecording_rejected t) = mediaRecorder t \<and>
   audioChunks (startRecording_rejected t) = audioChunks t \<and>
   map sent (sockets (startRecording_rejected t)) = map sent (sockets t) \<and>
   timers (startRecording_rejected t) = timers t \<and>
   sessionId (startRecording_rejected t) = sessionId t"
  by (simp add: startRecording_click_def startRecording_rejected_def connectWebSocket_def
        console_out_def wsUrl_def Let_def)

theorem rejected_start_effects_witness:
  "sockets (startRecording_click ''session_a'' page0) = [socket_a CONNECTING []] \<and>
   ws (startRecording_click ''session_a'' page0) = Some 0 \<and>
   recorders denied_start = [] \<and> mediaRecorder denied_start = None \<and>
   map sent (sockets denied_start) = [Nil] \<and> timers denied_start = [] \<and>
   \<not> startRecordingBtn_disabled denied_start \<and> stopRecordingBtn_disabled denied_start"
  using rejected_start_effects [of "''session_a''" page0 "startRecording_click ''session_a'' page0"]
  by (simp add: denied_start_eq page0_def loaded_def startRecording_click_def
        connectWebSocket_def console_out_def wsUrl_def socket_a_def Let_def)

subsection \<open>A stop-intent without a recording\<close>

text \<open>
  C10. A stop-intent that finds no recorder in the \<^verbatim>\<open>recording\<close> state adds one line to the
  console and changes nothing else. In particular every socket, and the variable
  \<^verbatim>\<open>ws\<close>, are as before: no connection is closed.
\<close>

theorem stop_without_recording_only_logs:
  "\<not> mediaRecorder_recording s \<Longrightarrow>
     stopRecording_click s =
       s\<lparr>console := console s @ [(Log, ''MediaRecorder not in recording state, cannot stop.'')]\<rparr>
     \<and> sockets (stopRecording_click s) = sockets s
     \<and> ws (stopRecording_click s) = ws s"
  by (simp add: stopRecording_click_def console_out_def)

text \<open>
  The instance for the state after a rejected start attempt: the socket that attempt
  opened is still connecting after the stop-intent.
\<close>

theorem stop_without_recording_only_logs_witness:
  "\<not> mediaRecorder_recording denied_start \<and>
   sockets (stopRecording_click denied_start) = [socket_a CONNECTING []] \<and>
   ws (stopRecording_click denied_start) = Some 0"
proof -
  have h: "\<not> mediaRecorder_recording denied_start"
    by (simp add: denied_start_eq mediaRecorder_recording_def page0_def loaded_def)
  from stop_without_recording_only_logs [OF h] show ?thesis using h
    by (simp add: denied_start_eq page0_def loaded_def)
qed

subsection \<open>Changing the speaker type\<close>

text \<open>
  C5, as the claim has it, fails: the handler checks nothing. On the fresh page, with the
  transport open, selecting the value \<^verbatim>\<open>not_a_speaker_type\<close> sends a control message that
  carries it, after the announcement of \<^verbatim>\<open>rep\<close>.
\<close>

theorem speaker_type_counterexample:
  "map_option sockets
     (run [StartClick ''session_a'', SocketOpen 0, SpeakerSelected ''not_a_speaker_type''] page0) =
     Some [\<lparr>url = ''ws://localhost:8000/ws/audio/session_a/'', readyState = OPEN,
            sent = [Control ''rep'', Control ''not_a_speaker_type'']\<rparr>]"
  by code_simp

text \<open>
  C5, amended. No value is rejected. Whatever the value, it becomes the selected speaker
  type; if the current transport is open, one control message with that value is sent on
  it and one line is logged; if it is not, nothing else happens.
\<close>

theorem speaker_type_not_validated:
  "(open_ws s = Some i \<longrightarrow>
      setSpeakerType v s =
        s\<lparr>speakerTypeSelect_value := v,
          sockets := (sockets s)[i := (sockets s ! i)\<lparr>sent := sent (sockets s ! i) @ [Control v]\<rparr>],
          console := console s @ [(Log, ''Sent speaker type update:'')]\<rparr>) \<and>
   (open_ws s = None \<longrightarrow> setSpeakerType v s = s\<lparr>speakerTypeSelect_value := v\<rparr>)"
proof (intro conjI impI)
  assume o: "open_ws s = Some i"
  from open_ws_SomeD [OF o]
  have i: "i < length (sockets s)" "readyState (sockets s ! i) = OPEN" by simp_all
  from o have o': "open_ws (s\<lparr>speakerTypeSelect_value := v\<rparr>) = Some i"
    by (simp add: tests_ignore_other_fields)
  show "setSpeakerType v s =
        s\<lparr>speakerTypeSelect_value := v,
          sockets := (sockets s)[i := (sockets s ! i)\<lparr>sent := sent (sockets s ! i) @ [Control v]\<rparr>],
          console := console s @ [(Log, ''Sent speaker type update:'')]\<rparr>"
    using i by (simp add: setSpeakerType_def speakerType_change_def o' socket_send_open console_out_def)
next
  assume o: "open_ws s = None"
  then have o': "open_ws (s\<lparr>speakerTypeSelect_value := v\<rparr>) = None"
    by (simp add: tests_ignore_other_fields)
  show "setSpeakerType v s = s\<lparr>speakerTypeSelect_value := v\<rparr>"
    by (simp add: setSpeakerType_def speakerType_change_def o')
qed

theorem speaker_type_not_validated_witness:
  "open_ws open_page = Some 0 \<and>
   sockets (setSpeakerType ''not_a_speaker_type'' open_page) =
     [socket_a OPEN [Control ''rep'', Control ''not_a_speaker_type'']] \<and>
   open_ws page0 = None \<and>
   setSpeakerType ''not_a_speaker_type'' page0 =
     page0\<lparr>speakerTypeSelect_value := ''not_a_speaker_type''\<rparr>"
proof -
  note o = example_tests(2) and c = example_tests(1)
  from speaker_type_not_validated [where s = open_page and i = 0 and v = "''not_a_speaker_type''"] o
  have 1: "setSpeakerType ''not_a_speaker_type'' open_page =
        open_page\<lparr>speakerTypeSelect_value := ''not_a_speaker_type'',
          sockets := (sockets open_page)[0 := (sockets open_page ! 0)
             \<lparr>sent := sent (sockets open_page ! 0) @ [Control ''not_a_speaker_type'']\<rparr>],
          console := console open_page @ [(Log, ''Sent speaker type update:'')]\<rparr>"
    by simp
  from speaker_type_not_validated [where s = page0 and v = "''not_a_speaker_type''"] c
  have 2: "setSpeakerType ''not_a_speaker_type'' page0 =
     page0\<lparr>speakerTypeSelect_value := ''not_a_speaker_type''\<rparr>"
    by simp
  show ?thesis
    unfolding 1 using o c 2 by (simp add: open_page_def socket_a_def)
qed

subsection \<open>Capture chunks\<close>

text \<open>
  C3, as the claim has it, fails twice. A chunk that arrives while the transport is not
  open is kept in the local buffer \<^verbatim>\<open>audioChunks\<close>; and an empty chunk is not forwarded
  although the transport is open.
\<close>

theorem chunk_buffer_counterexample:
  "map_option open_ws (run [StartClick ''session_a'', MicGranted True] page0) = Some None \<and>
   map_option audioChunks
     (run [StartClick ''session_a'', MicGranted True, DataAvailable 0 three_bytes] page0) =
     Some [three_bytes] \<and>
   map_option open_ws (run [StartClick ''session_a'', SocketOpen 0, MicGranted True] page0) =
     Some (Some 0) \<and>
   map_option sockets
     (run [StartClick ''session_a'', SocketOpen 0, MicGranted True, DataAvailable 0 []] page0) =
     Some [\<lparr>url = ''ws://localhost:8000/ws/audio/session_a/'', readyState = OPEN,
            sent = [Control ''rep'']\<rparr>]"
  by code_simp

text \<open>
  C3, amended. A chunk that is not empty is forwarded, as one binary frame on the current
  transport, exactly when that transport is open; otherwise it is not sent and a warning
  is logged. In both cases the chunk is appended to the buffer \<^verbatim>\<open>audioChunks\<close>, and
  nothing else changes: the recorder goes on and no timer is set. An empty chunk is only
  logged. The buffer is emptied when a recorder's \<^verbatim>\<open>stop\<close> event is handled, and it is never
  read: whatever events follow, the state apart from the buffer does not depend on what
  the buffer holds, so no buffered chunk is sent later.
\<close>

theorem chunk_forwarding:
  "(d \<noteq> [] \<and> open_ws s = Some i \<longrightarrow>
      mediaRecorder_ondataavailable d s =
        s\<lparr>audioChunks := audioChunks s @ [d],
          sockets := (sockets s)[i := (sockets s ! i)\<lparr>sent := sent (sockets s ! i) @ [Binary d]\<rparr>],
          console := console s @ [(Log, ''ondataavailable event fired. Data size:''),
                                  (Log, ''Sent audio chunk to WebSocket. Chunk size:'')]\<rparr>) \<and>
   (d \<noteq> [] \<and> open_ws s = None \<longrightarrow>
      mediaRecorder_ondataavailable d s =
        s\<lparr>audioChunks := audioChunks s @ [d],
          console := console s @ [(Log, ''ondataavailable event fired. Data size:''),
                                  (Warn, ''WebSocket not open, could not send audio chunk.'')]\<rparr>) \<and>
   mediaRecorder_ondataavailable [] s =
     s\<lparr>console := console s @ [(Log, ''ondataavailable event fired. Data size:''),
                             (Log, ''ondataavailable event fired, but data size is 0.'')]\<rparr> \<and>
   audioChunks (mediaRecorder_onstop r s) = [] \<and>
   map_option erase_buffer (run es (s\<lparr>audioChunks := b\<rparr>)) = map_option erase_buffer (run es s)"
proof (intro conjI impI)
  assume a: "d \<noteq> [] \<and> open_ws s = Some i"
  from a open_ws_SomeD [of s i]
  have i: "i < length (sockets s)" "readyState (sockets s ! i) = OPEN"
    by simp_all
  from a show "mediaRecorder_ondataavailable d s =
        s\<lparr>audioChunks := audioChunks s @ [d],
          sockets := (sockets s)[i := (sockets s ! i)\<lparr>sent := sent (sockets s ! i) @ [Binary d]\<rparr>],
          console := console s @ [(Log, ''ondataavailable event fired. Data size:''),
                                  (Log, ''Sent audio chunk to WebSocket. Chunk size:'')]\<rparr>"
    using i
    by (simp add: mediaRecorder_ondataavailable_def Let_def console_out_def
          tests_ignore_other_fields socket_send_def)
next
  assume a: "d \<noteq> [] \<and> open_ws s = None"
  then show "mediaRecorder_ondataavailable d s =
        s\<lparr>audioChunks := audioChunks s @ [d],
          console := console s @ [(Log, ''ondataavailable event fired. Data size:''),
                                  (Warn, ''WebSocket not open, could not send audio chunk.'')]\<rparr>"
    by (simp add: mediaRecorder_ondataavailable_def Let_def console_out_def
          tests_ignore_other_fields)
next
  show "mediaRecorder_ondataavailable [] s =
     s\<lparr>console := console s @ [(Log, ''ondataavailable event fired. Data size:''),
                             (Log, ''ondataavailable event fired, but data size is 0.'')]\<rparr>"
    by (simp add: mediaRecorder_ondataavailable_def Let_def console_out_def)
next
  show "audioChunks (mediaRecorder_onstop r s) = []"
    by (simp add: mediaRecorder_onstop_def Let_def console_out_def)
next
  show "map_option erase_buffer (run es (s\<lparr>audioChunks := b\<rparr>)) = map_option erase_buffer (run es s)"
    by (rule run_ignores_buffer)
qed

theorem chunk_forwarding_witness:
  "open_ws streaming_page = Some 0 \<and>
   sockets (mediaRecorder_ondataavailable three_bytes streaming_page) =
     [socket_a OPEN [Control ''rep'', Binary three_bytes]] \<and>
   audioChunks (mediaRecorder_ondataavailable three_bytes streaming_page) = [three_bytes] \<and>
   open_ws connecting_page = None \<and>
   sockets (mediaRecorder_ondataavailable three_bytes connecting_page) = [socket_a CONNECTING []] \<and>
   audioChunks (mediaRecorder_ondataavailable three_bytes connecting_page) = [three_bytes]"
proof -
  have d: "three_bytes \<noteq> []" by (simp add: three_bytes_def)
  note o = example_tests(4) and c = example_tests(3)
  from chunk_forwarding [where d = "three_bytes" and s = streaming_page and i = 0] d o
  have 1: "mediaRecorder_ondataavailable three_bytes streaming_page =
        streaming_page\<lparr>audioChunks := audioChunks streaming_page @ [three_bytes],
          sockets := (sockets streaming_page)[0 := (sockets streaming_page ! 0)
             \<lparr>sent := sent (sockets streaming_page ! 0) @ [Binary three_bytes]\<rparr>],
          console := console streaming_page @ [(Log, ''ondataavailable event fired. Data size:''),
                                  (Log, ''Sent audio chunk to WebSocket. Chunk size:'')]\<rparr>"
    by simp
  from chunk_forwarding [where d = "three_bytes" and s = connecting_page] d c
  have 2: "mediaRecorder_ondataavailable three_bytes connecting_page =
        connecting_page\<lparr>audioChunks := audioChunks connecting_page @ [three_bytes],
          console := console connecting_page @ [(Log, ''ondataavailable event fired. Data size:''),
                                  (Warn, ''WebSocket not open, could not send audio chunk.'')]\<rparr>"
    by simp
  show ?thesis
    unfolding 1 2 using o c
    by (simp add: streaming_page_def connecting_page_def page0_def loaded_def socket_a_def)
qed

subsection \<open>Reconnection\<close>

text \<open>
  C4, as the claim has it, fails: no handler cancels a timer. A session streams, its
  transport closes abnormally, the user stops: the timer is still pending, and when it
  fires a new socket is opened for the stopped session and becomes the current one. And
  two timers can be pending at once, both set by sockets of one session: after two
  rejected start attempts, the timer set by the first attempt's socket opens a second
  socket for \<^verbatim>\<open>session_b\<close>, and then both sockets of \<^verbatim>\<open>session_b\<close> close abnormally.
\<close>

theorem reconnect_after_stop_counterexample:
  "map_option timers
     (run [StartClick ''session_a'', SocketOpen 0, MicGranted True, SocketClose 0 False,
           StopClick] page0) =
     Some [\<lparr>callback = ConnectWebSocket, delay = 3000\<rparr>] \<and>
   map_option sockets
     (run [StartClick ''session_a'', SocketOpen 0, MicGranted True, SocketClose 0 False,
           StopClick, TimerFire] page0) =
     Some [\<lparr>url = ''ws://localhost:8000/ws/audio/session_a/'', readyState = CLOSED,
            sent = [Control ''rep'']\<rparr>,
           \<lparr>url = ''ws://localhost:8000/ws/audio/session_a/'', readyState = CONNECTING,
            sent = []\<rparr>] \<and>
   map_option ws
     (run [StartClick ''session_a'', SocketOpen 0, MicGranted True, SocketClose 0 False,
           StopClick, TimerFire] page0) = Some (Some 1) \<and>
   map_option sockets
     (run [StartClick ''session_a'', MicRejected, StartClick ''session_b'', MicRejected,
           SocketClose 0 False, TimerFire, SocketClose 1 False, SocketClose 2 False] page0) =
     Some [\<lparr>url = ''ws://localhost:8000/ws/audio/session_a/'', readyState = CLOSED, sent = []\<rparr>,
           \<lparr>url = ''ws://localhost:8000/ws/audio/session_b/'', readyState = CLOSED, sent = []\<rparr>,
           \<lparr>url = ''ws://localhost:8000/ws/audio/session_b/'', readyState = CLOSED, sent = []\<rparr>] \<and>
   map_option timers
     (run [StartClick ''session_a'', MicRejected, StartClick ''session_b'', MicRejected,
           SocketClose 0 False, TimerFire, SocketClose 1 False, SocketClose 2 False] page0) =
     Some [\<lparr>callback = ConnectWebSocket, delay = 3000\<rparr>,
           \<lparr>callback = ConnectWebSocket, delay = 3000\<rparr>]"
  by code_simp

text \<open>
  C4, amended. Reconnection timers are never cancelled and never superseded. A
  stop-intent and a start-intent (the click and either resumption) leave the pending
  timers as they are; no event other than a timer's own firing removes a pending timer,
  an event can only add some. A pending timer can always fire, and then it opens a new
  socket for the identity of that moment, which becomes the current transport.
\<close>

theorem reconnect_timers_never_cancelled:
  "timers (stopRecording_click s) = timers s \<and>
   timers (startRecording_click new_id s) = timers s \<and>
   timers (startRecording_granted g s) = timers s \<and>
   timers (startRecording_rejected s) = timers s \<and>
   (e \<noteq> TimerFire \<and> step e s = Some t \<longrightarrow> (\<exists>new. timers t = timers s @ new)) \<and>
   (timers s = tm # ts \<longrightarrow>
      (\<exists>t'. step TimerFire s = Some t' \<and> timers t' = ts \<and>
         sockets t' = sockets s @ [\<lparr>url = wsUrl s, readyState = CONNECTING, sent = []\<rparr>] \<and>
         ws t' = Some (length (sockets s))))"
  using step_keeps_timers [of e s t] timer_fires [of s tm ts]
  by (simp add: timers_handlers)

theorem reconnect_timers_never_cancelled_witness:
  "timers dropped_page = [reconnect_timer] \<and>
   StopClick \<noteq> TimerFire \<and>
   step StopClick dropped_page = Some (stopRecording_click dropped_page) \<and>
   timers (stopRecording_click dropped_page) = [reconnect_timer] \<and>
   map_option ws (step TimerFire (stopRecording_click dropped_page)) = Some (Some 1)"
proof -
  have t: "timers dropped_page = [reconnect_timer]" by (simp add: dropped_page_eq)
  have st: "step StopClick dropped_page = Some (stopRecording_click dropped_page)"
    by (simp add: dropped_page_eq streaming_page_def)
  note len = stopped_dropped_page_sockets
  from reconnect_timers_never_cancelled [where s = dropped_page] t
  have k: "timers (stopRecording_click dropped_page) = [reconnect_timer]" by simp
  from reconnect_timers_never_cancelled
         [where s = "stopRecording_click dropped_page" and tm = reconnect_timer and ts = "[]"] k len
  have "map_option ws (step TimerFire (stopRecording_click dropped_page)) = Some (Some 1)"
    by auto
  with t st k show ?thesis by simp
qed

lemma socket_close_keeps_unclosed:
  "j < length (sockets s) \<Longrightarrow> readyState (sockets s ! j) \<noteq> CLOSED \<Longrightarrow>
     j < length (sockets (socket_close i s)) \<and>
     readyState (sockets (socket_close i s) ! j) \<noteq> CLOSED"
  by (cases "i = j") (simp_all add: socket_close_def split: readyState.splits)

lemma stop_keeps_unclosed:
  assumes "j < length (sockets s)" and "readyState (sockets s ! j) \<noteq> CLOSED"
  shows "j < length (sockets (stopRecording_click s)) \<and>
         readyState (sockets (stopRecording_click s) ! j) \<noteq> CLOSED"
proof (cases "mediaRecorder_recording s")
  case False
  with assms show ?thesis by (simp add: stopRecording_click_def console_out_def)
next
  case True
  show ?thesis
  proof (cases "ws s")
    case None
    with True assms show ?thesis
      by (simp add: stopRecording_click_def console_out_def mediaRecorder_stop_def Let_def
            split: option.splits)
  next
    case (Some i)
    let ?s2 = "console_out Log ''Closing WebSocket...''
                 (mediaRecorder_stop (console_out Log ''Stopping MediaRecorder...'' s))"
    have s2: "sockets ?s2 = sockets s"
      by (simp add: console_out_def mediaRecorder_stop_def split: option.splits)
    from assms s2 socket_close_keeps_unclosed [of j ?s2 i]
    have "j < length (sockets (socket_close i ?s2)) \<and>
          readyState (sockets (socket_close i ?s2) ! j) \<noteq> CLOSED" by simp
    moreover
    have "ws (mediaRecorder_stop (console_out Log ''Stopping MediaRecorder...'' s)) = Some i"
      using Some by (simp add: console_out_def mediaRecorder_stop_def split: option.splits)
    ultimately show ?thesis using True
      by (simp add: stopRecording_click_def Let_def console_out_def)
  qed
qed

lemma close_event_timers:
  "step (SocketClose i wasClean) s = Some u \<Longrightarrow>
     timers u =
       timers s @ (if wasClean then [] else [\<lparr>callback = ConnectWebSocket, delay = 3000\<rparr>]) \<and>
     sessionId u = sessionId s"
  by (cases wasClean)
     (auto simp: timers_handlers sessionId_handlers identity_frame set_readyState_def
        reconnect_timer_def split: if_splits)

lemma unclean_close_after_stop:
  assumes "i < length (sockets s)" and "readyState (sockets s ! i) \<noteq> CLOSED"
  shows "\<exists>u. step (SocketClose i False) (stopRecording_click s) = Some u \<and>
             timers u = timers s @ [\<lparr>callback = ConnectWebSocket, delay = 3000\<rparr>]"
proof -
  from stop_keeps_unclosed [OF assms]
  obtain u where u: "step (SocketClose i False) (stopRecording_click s) = Some u" by simp
  from close_event_timers [OF u]
  have "timers u = timers s @ [\<lparr>callback = ConnectWebSocket, delay = 3000\<rparr>]"
    by (simp add: timers_handlers)
  with u show ?thesis by blast
qed

text \<open>
  C2, as the claim has it, fails in two clauses. On the identity: the timer's callback
  reads the variable \<^verbatim>\<open>sessionId\<close> when it runs. A session \<^verbatim>\<open>session_a\<close> streams and its
  transport closes abnormally, which sets one timer; the user stops and starts again,
  which draws \<^verbatim>\<open>session_b\<close>; the timer then fires and the socket it opens (the third) is
  addressed to \<^verbatim>\<open>session_b\<close>. On the explicit stop: the handler of the \<^verbatim>\<open>close\<close> event
  looks at \<^verbatim>\<open>event.wasClean\<close> only, not at what caused the close. A session streams, the
  user stops, and the close that follows is reported as not clean: a timer is set, and
  when it fires a new socket is opened for the stopped session.
\<close>

theorem reconnect_identity_counterexample:
  "map_option timers
     (run [StartClick ''session_a'', SocketOpen 0, MicGranted True, SocketClose 0 False] page0) =
     Some [\<lparr>callback = ConnectWebSocket, delay = 3000\<rparr>] \<and>
   map_option sockets
     (run [StartClick ''session_a'', SocketOpen 0, MicGranted True, SocketClose 0 False,
           StopClick, StartClick ''session_b''] page0) =
     Some [\<lparr>url = ''ws://localhost:8000/ws/audio/session_a/'', readyState = CLOSED,
            sent = [Control ''rep'']\<rparr>,
           \<lparr>url = ''ws://localhost:8000/ws/audio/session_b/'', readyState = CONNECTING,
            sent = []\<rparr>] \<and>
   map_option sockets
     (run [StartClick ''session_a'', SocketOpen 0, MicGranted True, SocketClose 0 False,
           StopClick, StartClick ''session_b'', TimerFire] page0) =
     Some [\<lparr>url = ''ws://localhost:8000/ws/audio/session_a/'', readyState = CLOSED,
            sent = [Control ''rep'']\<rparr>,
           \<lparr>url = ''ws://localhost:8000/ws/audio/session_b/'', readyState = CONNECTING,
            sent = []\<rparr>,
           \<lparr>url = ''ws://localhost:8000/ws/audio/session_b/'', readyState = CONNECTING,
            sent = []\<rparr>] \<and>
   map_option timers
     (run [StartClick ''session_a'', SocketOpen 0, MicGranted True, StopClick,
           SocketClose 0 False] page0) =
     Some [\<lparr>callback = ConnectWebSocket, delay = 3000\<rparr>] \<and>
   map_option sockets
     (run [StartClick ''session_a'', SocketOpen 0, MicGranted True, StopClick,
           SocketClose 0 False, TimerFire] page0) =
     Some [\<lparr>url = ''ws://localhost:8000/ws/audio/session_a/'', readyState = CLOSED,
            sent = [Control ''rep'']\<rparr>,
           \<lparr>url = ''ws://localhost:8000/ws/audio/session_a/'', readyState = CONNECTING,
            sent = []\<rparr>]"
  by code_simp

text \<open>
  C2, amended. Whether a close schedules a reconnection is decided by \<^verbatim>\<open>event.wasClean\<close>
  alone. Every \<^verbatim>\<open>close\<close> event the browser delivers, in whatever state, sets exactly one
  timer (callback \<^verbatim>\<open>connectWebSocket\<close>, delay 3000 ms) when it is reported as not clean and
  none when it is reported as clean, and keeps the identity. An explicit stop does not
  make the close clean: after a stop-intent, a close of a socket that was not yet closed
  can still be reported as not clean, and then sets one timer like any other. When a
  timer fires, in a state \<open>t\<close> reached from the close by any events \<open>es\<close>, it opens one
  socket at the address built from the identity of \<open>t\<close>, which becomes the current
  transport; that address and identity are those from before the close provided no
  start-intent is among \<open>es\<close>.
\<close>

theorem reconnect_uses_current_identity:
  "(step (SocketClose i wasClean) s = Some u \<longrightarrow>
      timers u =
        timers s @ (if wasClean then [] else [\<lparr>callback = ConnectWebSocket, delay = 3000\<rparr>]) \<and>
      sessionId u = sessionId s) \<and>
   (i < length (sockets s) \<and> readyState (sockets s ! i) \<noteq> CLOSED \<longrightarrow>
      (\<exists>u'. step (SocketClose i False) (stopRecording_click s) = Some u' \<and>
         timers u' = timers s @ [\<lparr>callback = ConnectWebSocket, delay = 3000\<rparr>])) \<and>
   timers (ws_onclose False s) = timers s @ [\<lparr>callback = ConnectWebSocket, delay = 3000\<rparr>] \<and>
   sessionId (ws_onclose False s) = sessionId s \<and>
   timers (ws_onclose True s) = timers s \<and>
   (run es (ws_onclose False s) = Some t \<and> timers t = tm # ts \<longrightarrow>
      (\<exists>t'. step TimerFire t = Some t' \<and>
         sockets t' = sockets t @ [\<lparr>url = wsUrl t, readyState = CONNECTING, sent = []\<rparr>] \<and>
         ws t' = Some (length (sockets t))) \<and>
      (list_all (\<lambda>e. \<not> is_start e) es \<longrightarrow> wsUrl t = wsUrl s \<and> sessionId t = sessionId s))"
proof (intro conjI impI)
  assume c: "step (SocketClose i wasClean) s = Some u"
  from close_event_timers [OF c]
  show "timers u =
        timers s @ (if wasClean then [] else [\<lparr>callback = ConnectWebSocket, delay = 3000\<rparr>])"
    and "sessionId u = sessionId s"
    by simp_all
next
  assume "i < length (sockets s) \<and> readyState (sockets s ! i) \<noteq> CLOSED"
  then show "\<exists>u'. step (SocketClose i False) (stopRecording_click s) = Some u' \<and>
         timers u' = timers s @ [\<lparr>callback = ConnectWebSocket, delay = 3000\<rparr>]"
    using unclean_close_after_stop [of i s] by simp
next
  assume a: "run es (ws_onclose False s) = Some t \<and> timers t = tm # ts"
  from a timer_fires [of t tm ts]
  show "\<exists>t'. step TimerFire t = Some t' \<and>
         sockets t' = sockets t @ [\<lparr>url = wsUrl t, readyState = CONNECTING, sent = []\<rparr>] \<and>
         ws t' = Some (length (sockets t))"
    by auto
  assume n: "list_all (\<lambda>e. \<not> is_start e) es"
  from a n run_identity [of es "ws_onclose False s" t]
  show "wsUrl t = wsUrl s" "sessionId t = sessionId s"
    by (simp_all add: identity_handlers sessionId_handlers)
qed (simp_all add: timers_handlers sessionId_handlers reconnect_timer_def)

text \<open>
  Instances at the streaming state: its transport closes and is reported as not clean,
  which sets one timer; the same close after a stop-intent sets one as well; and with a
  stop-intent between the close and the firing, the socket the timer opens is addressed
  to the identity from before the close.
\<close>

theorem reconnect_uses_current_identity_witness:
  "step (SocketClose 0 False) streaming_page = Some dropped_page \<and>
   timers dropped_page = [reconnect_timer] \<and>
   0 < length (sockets streaming_page) \<and>
   readyState (sockets streaming_page ! 0) \<noteq> CLOSED \<and>
   map_option timers (step (SocketClose 0 False) (stopRecording_click streaming_page)) =
     Some [reconnect_timer] \<and>
   run [StopClick] (ws_onclose False (set_readyState 0 CLOSED streaming_page)) =
     Some (stopRecording_click dropped_page) \<and>
   timers (stopRecording_click dropped_page) = [reconnect_timer] \<and>
   list_all (\<lambda>e. \<not> is_start e) [StopClick] \<and>
   wsUrl (stopRecording_click dropped_page) = ''ws://localhost:8000/ws/audio/session_a/'' \<and>
   map_option ws (step TimerFire (stopRecording_click dropped_page)) = Some (Some 1)"
proof -
  have c: "step (SocketClose 0 False) streaming_page = Some dropped_page"
    by (simp add: dropped_page_def) (simp add: streaming_page_def socket_a_def)
  have o: "0 < length (sockets streaming_page) \<and> readyState (sockets streaming_page ! 0) \<noteq> CLOSED"
    by (simp add: streaming_page_def socket_a_def)
  have e: "timers streaming_page = []"
    by (simp add: streaming_page_def page0_def loaded_def)
  from reconnect_uses_current_identity
         [where s = streaming_page and i = 0 and wasClean = False and u = dropped_page] c o e
  have first: "timers dropped_page = [reconnect_timer] \<and>
     map_option timers (step (SocketClose 0 False) (stopRecording_click streaming_page)) =
       Some [reconnect_timer]"
    by (auto simp: reconnect_timer_def)
  have r: "run [StopClick] (ws_onclose False (set_readyState 0 CLOSED streaming_page)) =
     Some (stopRecording_click dropped_page)"
    by (simp add: dropped_page_def [symmetric]) (simp add: dropped_page_eq streaming_page_def)
  have k: "timers (stopRecording_click dropped_page) = [reconnect_timer]"
    by (simp add: timers_handlers dropped_page_eq)
  have n: "list_all (\<lambda>e. \<not> is_start e) [StopClick]" by simp
  have u: "wsUrl (set_readyState 0 CLOSED streaming_page) = ''ws://localhost:8000/ws/audio/session_a/''"
    by (simp add: wsUrl_def set_readyState_def streaming_page_def page0_def loaded_def)
  note len = stopped_dropped_page_sockets
  from reconnect_uses_current_identity
         [where s = "set_readyState 0 CLOSED streaming_page" and es = "[StopClick]"
            and t = "stopRecording_click dropped_page" and tm = reconnect_timer and ts = "[]"]
       r k n
  have "(\<exists>t'. step TimerFire (stopRecording_click dropped_page) = Some t' \<and>
          ws t' = Some (length (sockets (stopRecording_click dropped_page)))) \<and>
        wsUrl (stopRecording_click dropped_page) = wsUrl (set_readyState 0 CLOSED streaming_page)"
    by auto
  with c o first r k n u len show ?thesis by auto
qed

section \<open>Properties of the keyword cache\<close>

lemma failed_add_only_logs:
  "failed ra \<Longrightarrow> \<exists>m. addKeyword_response ra s = console_out Error m s"
  by (cases ra) (auto simp: addKeyword_response_def split: option.splits)

lemma failed_delete_only_logs:
  "failed rd \<Longrightarrow> \<exists>m. deleteKeyword_response keywordId rd s = console_out Error m s"
  by (cases rd) (auto simp: deleteKeyword_response_def split: option.splits)

lemma cache_changes_only_when_acknowledged:
  "keywords (addKeyword_response ra s) \<noteq> keywords s \<Longrightarrow> \<exists>newKw. ra = Response True (Some newKw)"
  "keywords (deleteKeyword_response keywordId rd s) \<noteq> keywords s \<Longrightarrow> \<exists>body. rd = Response True body"
  by (cases ra; auto simp: addKeyword_response_def console_out_def split: option.splits if_splits)
     (cases rd; auto simp: deleteKeyword_response_def console_out_def split: option.splits if_splits)

text \<open>
  C7. When a create or a delete request fails (rejected promise, or a response that is
  not \<^verbatim>\<open>ok\<close>), the handler leaves the keyword cache as it was; indeed it changes nothing
  but the console, where it writes one error line. And the cache is changed only on an
  acknowledgement: a run of either handler that changes the cache was given a response
  that is \<^verbatim>\<open>ok\<close> (for a create, one that carries the new keyword).
\<close>

theorem failed_keyword_request_keeps_cache:
  "(failed ra \<longrightarrow>
      keywords (addKeyword_response ra s) = keywords s \<and>
      (\<exists>m. addKeyword_response ra s = console_out Error m s)) \<and>
   (failed rd \<longrightarrow>
      keywords (deleteKeyword_response keywordId rd s) = keywords s \<and>
      (\<exists>m. deleteKeyword_response keywordId rd s = console_out Error m s)) \<and>
   (keywords (addKeyword_response ra' s) \<noteq> keywords s \<longrightarrow>
      (\<exists>newKw. ra' = Response True (Some newKw))) \<and>
   (keywords (deleteKeyword_response keywordId rd' s) \<noteq> keywords s \<longrightarrow>
      (\<exists>body. rd' = Response True body))"
proof (intro conjI impI)
  assume f: "failed ra"
  from failed_add_only_logs [OF f, of s]
  show "\<exists>m. addKeyword_response ra s = console_out Error m s" .
  then show "keywords (addKeyword_response ra s) = keywords s"
    by (auto simp: console_out_def)
next
  assume f: "failed rd"
  from failed_delete_only_logs [OF f, of keywordId s]
  show "\<exists>m. deleteKeyword_response keywordId rd s = console_out Error m s" .
  then show "keywords (deleteKeyword_response keywordId rd s) = keywords s"
    by (auto simp: console_out_def)
qed (rule cache_changes_only_when_acknowledged, assumption)+

text \<open>
  Instances on a cache that holds one keyword: a create answered with a response that is
  not \<^verbatim>\<open>ok\<close> and a delete whose request is rejected leave the cache alone; a create and a
  delete that change it were acknowledged.
\<close>

theorem failed_keyword_request_keeps_cache_witness:
  "failed (Response False (Some (cached 2 ''budget''))) \<and> failed (NetworkError :: unit response) \<and>
   keywords (addKeyword_response (Response False (Some (cached 2 ''budget''))) page_pricing)
     = [cached 1 ''pricing''] \<and>
   keywords (deleteKeyword_response 1 NetworkError page_pricing) = [cached 1 ''pricing''] \<and>
   keywords (addKeyword_response (Response True (Some (cached 2 ''budget''))) page_pricing)
     \<noteq> keywords page_pricing \<and>
   keywords (deleteKeyword_response 1 (Response True None) page_pricing) \<noteq> keywords page_pricing"
proof -
  have a: "failed (Response False (Some (cached 2 ''budget'')))" by simp
  have d: "failed (NetworkError :: unit response)" by simp
  have k: "keywords page_pricing = [cached 1 ''pricing'']" by (simp add: page_pricing_def)
  have a': "keywords (addKeyword_response (Response True (Some (cached 2 ''budget''))) page_pricing)
     \<noteq> keywords page_pricing"
    by (simp add: addKeyword_response_def console_out_def page_pricing_def)
  have d': "keywords (deleteKeyword_response 1 (Response True None) page_pricing)
     \<noteq> keywords page_pricing"
    by (simp add: deleteKeyword_response_def console_out_def page_pricing_def cached_def)
  from failed_keyword_request_keeps_cache
         [where ra = "Response False (Some (cached 2 ''budget''))" and rd = NetworkError
            and ra' = "Response True (Some (cached 2 ''budget''))" and rd' = "Response True None"
            and keywordId = 1 and s = page_pricing]
  show ?thesis
    using a d k a' d' by simp
qed

end
